theory Spec2Isabelle
  imports Main "HOL-Library.Word"
begin

section \<open>The SaluteSpeech client of \<open>tts/tts_salute.py\<close>\<close>

text \<open>
  The module has two pieces of logic: the class \<open>Token\<close>, which caches the credential,
  the bearer token and its expiry in three class attributes, and the function
  \<open>speak\<close>, which turns a text and a voice name into played audio.

  Python's \<open>str\<close> and \<open>bytes\<close> are both modelled by \<open>string\<close> (a list of 8-bit
  characters): a \<open>str\<close> stands for its UTF-8 encoding. The operations the module uses
  on strings (concatenation, equality, dictionary lookup, \<open>join\<close>) commute with the
  encoding, so nothing is lost; the Cyrillic literals of the source are written out
  byte by byte.
\<close>

subsection \<open>Exceptions\<close>

text \<open>
  Every \<open>raise\<close> of the module and of the library calls it makes is a value.
  \<open>ValueError\<close> and \<open>Exception\<close> are the two classes the source raises itself, each
  with its message. \<open>RequestException\<close> is a failure of \<open>requests.post\<close> below the
  HTTP layer, \<open>BodyError\<close> a token reply whose body \<open>response.json()\<close> cannot parse or
  that lacks one of the two keys read from it, \<open>EOFError\<close> and \<open>WaveError\<close> are what
  \<open>wave.open\<close> raises.
\<close>

datatype wave_error =
    NotRIFF
  | NotWAVE
  | UnknownFormat nat
  | BadSampleWidth
  | BadChannels
  | DataBeforeFmt
  | ChunkMissing

datatype py_error =
    ValueError string
  | Exception string
  | RequestException
  | BodyError
  | EOFError
  | WaveError wave_error

subsection \<open>HTTP requests and replies\<close>

text \<open>
  \<open>requests.post(url, headers=..., data=..., verify=False)\<close>. The token request passes
  a dictionary as \<open>data\<close> (sent form-encoded), the synthesis request the raw text.
\<close>

datatype payload = Form "(string \<times> string) list" | Raw string

record http_request =
  url :: string
  headers :: "(string \<times> string) list"
  data :: payload
  verify :: bool

text \<open>
  Of a reply the module reads \<open>status_code\<close>, \<open>json()\<close> at the keys
  \<open>access_token\<close> and \<open>expires_at\<close> (a string and an integer, as the annotation
  \<open>tuple[str, int]\<close> of \<open>__request_for_new_token__\<close> declares; \<open>None\<close> here when
  parsing or a key lookup raises) and \<open>content\<close> (the body's bytes).
\<close>

record http_response =
  status_code :: int
  json :: "(string \<times> int) option"
  content :: string

subsection \<open>The world outside the process\<close>

text \<open>
  What one call reads from outside: the environment variable
  \<open>SALUTESPEECH_API_KEY\<close> (\<open>os.environ.get\<close>, \<open>None\<close> when it is not set), the clock
  as the source reads it (\<open>int(time.time() * 1000)\<close>, epoch milliseconds), the string
  of a fresh \<open>uuid.uuid4()\<close>, and the network: what \<open>requests.post\<close> answers to a
  request.
\<close>

record ext =
  environ_key :: "string option"
  now_ms :: int
  uuid4 :: string
  post :: "http_request \<Rightarrow> py_error + http_response"

text \<open>A network that gives every request the same answer.\<close>

fun always :: "py_error + http_response \<Rightarrow> http_request \<Rightarrow> py_error + http_response" where
  "always answer req = answer"

text \<open>
  The effects a call has on the outside, in the order they happen: a lookup of the
  environment variable, a request sent, samples handed to \<open>sounddevice.play\<close> with their
  sample rate. Samples are 16-bit words (\<open>numpy.int16\<close>, read as signed by \<open>sint\<close>).
\<close>

datatype event =
    EnvRead
  | HttpPost http_request
  | Play "16 word list" nat

subsection \<open>The class \<open>Token\<close>\<close>

text \<open>
  The three class attributes \<open>_authdata\<close>, \<open>_token\<close> and \<open>_expires_in\<close>, all
  \<open>None\<close> when the process starts, and the effects so far.
\<close>

record state =
  authdata :: "string option"
  token :: "string option"
  expires_in :: "int option"
  trace :: "event list"

definition initial :: state where
  "initial = \<lparr>authdata = None, token = None, expires_in = None, trace = []\<rparr>"

definition emit :: "event \<Rightarrow> state \<Rightarrow> state" where
  "emit ev s = s\<lparr>trace := trace s @ [ev]\<rparr>"

text \<open>
  \<open>get_authdata\<close>: when \<open>_authdata\<close> is \<open>None\<close> the variable is looked up and the
  result stored; \<open>_authdata\<close> is returned either way.
\<close>

definition get_authdata :: "ext \<Rightarrow> state \<Rightarrow> string option \<times> state" where
  "get_authdata e s =
     (case authdata s of
        None \<Rightarrow> (environ_key e, (emit EnvRead s)\<lparr>authdata := environ_key e\<rparr>)
      | Some a \<Rightarrow> (Some a, s))"

text \<open>An f-string field holding an optional string: \<open>None\<close> is formatted as \<open>None\<close>.\<close>

definition py_str :: "string option \<Rightarrow> string" where
  "py_str v = (case v of None \<Rightarrow> ''None'' | Some a \<Rightarrow> a)"

definition oauth_url :: string where
  "oauth_url = ''https://ngw.devices.sberbank.ru:9443/api/v2/oauth''"

definition oauth_request :: "string option \<Rightarrow> string \<Rightarrow> http_request" where
  "oauth_request a rquid =
     \<lparr>url = oauth_url,
      headers = [(''Authorization'', ''Basic '' @ py_str a),
                 (''RqUID'', rquid),
                 (''Content-Type'', ''application/x-www-form-urlencoded'')],
      data = Form [(''scope'', ''SALUTE_SPEECH_PERS'')],
      verify = False\<rparr>"

text \<open>
  \<open>__request_for_new_token__\<close>: one POST to the token endpoint; status 200 gives the
  token and its expiry, any other status raises \<open>Exception("Failed to obtain token")\<close>.
\<close>

definition request_for_new_token :: "ext \<Rightarrow> state \<Rightarrow> (py_error + string \<times> int) \<times> state" where
  "request_for_new_token e s =
     (case get_authdata e s of
        (a, s1) \<Rightarrow>
          (let req = oauth_request a (uuid4 e);
               s2 = emit (HttpPost req) s1
           in case post e req of
                Inl err \<Rightarrow> (Inl err, s2)
              | Inr response \<Rightarrow>
                  if status_code response = 200 then
                    (case json response of
                       None \<Rightarrow> (Inl BodyError, s2)
                     | Some (access_token, expires_at) \<Rightarrow> (Inr (access_token, expires_at), s2))
                  else (Inl (Exception ''Failed to obtain token''), s2)))"

text \<open>
  The condition of \<open>get_token\<close>:
  \<open>cls._token is None or (cls._expires_in is not None and
     cls._expires_in < int(time.time() * 1000) - 2000)\<close>.
\<close>

definition needs_refresh :: "ext \<Rightarrow> state \<Rightarrow> bool" where
  "needs_refresh e s =
     (token s = None \<or>
      (case expires_in s of None \<Rightarrow> False | Some x \<Rightarrow> x < now_ms e - 2000))"

text \<open>
  \<open>get_token\<close>: when the condition holds, the pair that \<open>__request_for_new_token__\<close>
  returns is stored in \<open>_token\<close> and \<open>_expires_in\<close> (nothing is stored when it
  raises); \<open>_token\<close> is returned.
\<close>

definition get_token :: "ext \<Rightarrow> state \<Rightarrow> (py_error + string option) \<times> state" where
  "get_token e s =
     (if needs_refresh e s then
        (case request_for_new_token e s of
           (Inl err, s1) \<Rightarrow> (Inl err, s1)
         | (Inr (t, x), s1) \<Rightarrow> (Inr (Some t), s1\<lparr>token := Some t, expires_in := Some x\<rparr>))
      else (Inr (token s), s))"

subsection \<open>The container of the synthesised audio\<close>

text \<open>
  Modelled from the spec: the reply of the synthesis endpoint is "a self-describing
  uncompressed audio container (sample rate + 16-bit PCM payload)", which \<open>speak\<close>
  reads with the standard library (\<open>wave.open\<close>, \<open>getframerate\<close>, \<open>getnframes\<close>,
  \<open>readframes\<close>) and \<open>numpy.frombuffer\<close>; neither the reader nor a writer is
  code of the repository. The reader below walks the RIFF chunks as the library does:
  the file starts with \<open>RIFF\<close>, a 4-byte little-endian size and \<open>WAVE\<close>; then come
  chunks of a 4-byte name, a 4-byte size and the body, padded to an even length. The
  \<open>fmt\<close> chunk carries the format tag (1 is PCM, the only one accepted here), the
  channels, the sample rate and the bits per sample; the walk stops at the \<open>data\<close>
  chunk. A read past the end of the bytes returns what is there.
\<close>

fun le_nat :: "string \<Rightarrow> nat" where
  "le_nat [] = 0"
| "le_nat (c # cs) = of_char c + 256 * le_nat cs"

record wave_read =
  nchannels :: nat
  sampwidth :: nat
  framerate :: nat
  nframes :: nat
  data_chunk :: string

definition read_fmt_chunk :: "string \<Rightarrow> py_error + (nat \<times> nat \<times> nat)" where
  "read_fmt_chunk body =
     (if length body < 14 then Inl EOFError
      else
        let wFormatTag = le_nat (take 2 body);
            channels = le_nat (take 2 (drop 2 body));
            rate = le_nat (take 4 (drop 4 body))
        in if wFormatTag \<noteq> 1 then Inl (WaveError (UnknownFormat wFormatTag))
           else if length body < 16 then Inl EOFError
           else
             let width = (le_nat (take 2 (drop 14 body)) + 7) div 8
             in if width = 0 then Inl (WaveError BadSampleWidth)
                else if channels = 0 then Inl (WaveError BadChannels)
                else Inr (channels, width, rate))"

function read_chunks :: "(nat \<times> nat \<times> nat) option \<Rightarrow> string \<Rightarrow> py_error + wave_read" where
  "read_chunks fmt bs =
     (if length bs < 8 then Inl (WaveError ChunkMissing)
      else
        let chunkname = take 4 bs;
            chunksize = le_nat (take 4 (drop 4 bs));
            body = take chunksize (drop 8 bs);
            rest = drop (8 + chunksize + chunksize mod 2) bs
        in if chunkname = ''fmt '' then
             (case read_fmt_chunk body of
                Inl err \<Rightarrow> Inl err
              | Inr f \<Rightarrow> read_chunks (Some f) rest)
           else if chunkname = ''data'' then
             (case fmt of
                None \<Rightarrow> Inl (WaveError DataBeforeFmt)
              | Some (channels, width, rate) \<Rightarrow>
                  Inr \<lparr>nchannels = channels, sampwidth = width, framerate = rate,
                       nframes = chunksize div (channels * width), data_chunk = body\<rparr>)
           else read_chunks fmt rest)"
  by pat_completeness auto
termination
  by (relation "measure (\<lambda>(fmt, bs). length bs)") auto

declare read_chunks.simps [simp del]

definition wave_open :: "string \<Rightarrow> py_error + wave_read" where
  "wave_open file =
     (if length file < 8 then Inl EOFError
      else if take 4 file \<noteq> ''RIFF'' then Inl (WaveError NotRIFF)
      else
        let riff = take (le_nat (take 4 (drop 4 file))) (drop 8 file)
        in if take 4 riff \<noteq> ''WAVE'' then Inl (WaveError NotWAVE)
           else read_chunks None (drop 4 riff))"

definition getframerate :: "wave_read \<Rightarrow> nat" where
  "getframerate w = framerate w"

definition getnframes :: "wave_read \<Rightarrow> nat" where
  "getnframes w = nframes w"

definition readframes :: "wave_read \<Rightarrow> nat \<Rightarrow> string" where
  "readframes w n = take (n * (nchannels w * sampwidth w)) (data_chunk w)"

text \<open>
  \<open>numpy.frombuffer(audio_data, dtype=numpy.int16)\<close>: every two bytes are one sample,
  low byte first; a buffer of odd length is refused.
\<close>

fun frombuffer_int16 :: "string \<Rightarrow> py_error + 16 word list" where
  "frombuffer_int16 [] = Inr []"
| "frombuffer_int16 [lo] = Inl (ValueError ''buffer size must be a multiple of element size'')"
| "frombuffer_int16 (lo # hi # bs) =
     (case frombuffer_int16 bs of
        Inl err \<Rightarrow> Inl err
      | Inr ws \<Rightarrow> Inr (word_of_nat (le_nat [lo, hi]) # ws))"

text \<open>The decode step of \<open>speak\<close>: the samples and the sample rate handed to playback.\<close>

definition decode :: "string \<Rightarrow> py_error + (16 word list \<times> nat)" where
  "decode body =
     (case wave_open body of
        Inl err \<Rightarrow> Inl err
      | Inr wav_file \<Rightarrow>
          (let sample_rate = getframerate wav_file;
               audio_data = readframes wav_file (getnframes wav_file)
           in case frombuffer_int16 audio_data of
                Inl err \<Rightarrow> Inl err
              | Inr audio \<Rightarrow> Inr (audio, sample_rate)))"

text \<open>
  Modelled from the spec: the writer of the round trip, a 16-bit PCM file with the
  canonical 44-byte header (what the library's own writer emits for such a file) and
  the samples of all channels interleaved, each low byte first.
\<close>

fun nat_le :: "nat \<Rightarrow> nat \<Rightarrow> string" where
  "nat_le 0 v = []"
| "nat_le (Suc n) v = char_of (v mod 256) # nat_le n (v div 256)"

definition sample_bytes :: "16 word \<Rightarrow> string" where
  "sample_bytes w = nat_le 2 (unat w)"

definition wav_encode :: "nat \<Rightarrow> nat \<Rightarrow> 16 word list \<Rightarrow> string" where
  "wav_encode channels rate samples =
     (let frames = concat (map sample_bytes samples)
      in ''RIFF'' @ nat_le 4 (36 + length frames) @ ''WAVE'' @
         ''fmt '' @ nat_le 4 16 @ nat_le 2 1 @ nat_le 2 channels @ nat_le 4 rate @
         nat_le 4 (channels * rate * 2) @ nat_le 2 (channels * 2) @ nat_le 2 16 @
         ''data'' @ nat_le 4 (length frames) @ frames)"

subsection \<open>The function \<open>speak\<close>\<close>

text \<open>The six voice names of the source, in UTF-8.\<close>

definition Natalya :: string where
  "Natalya = [CHR 0xD0, CHR 0x9D, CHR 0xD0, CHR 0xB0, CHR 0xD1, CHR 0x82, CHR 0xD0, CHR 0xB0,
              CHR 0xD0, CHR 0xBB, CHR 0xD1, CHR 0x8C, CHR 0xD1, CHR 0x8F]"

definition Aleksandra :: string where
  "Aleksandra = [CHR 0xD0, CHR 0x90, CHR 0xD0, CHR 0xBB, CHR 0xD0, CHR 0xB5, CHR 0xD0, CHR 0xBA,
                 CHR 0xD1, CHR 0x81, CHR 0xD0, CHR 0xB0, CHR 0xD0, CHR 0xBD, CHR 0xD0, CHR 0xB4,
                 CHR 0xD1, CHR 0x80, CHR 0xD0, CHR 0xB0]"

definition Boris :: string where
  "Boris = [CHR 0xD0, CHR 0x91, CHR 0xD0, CHR 0xBE, CHR 0xD1, CHR 0x80, CHR 0xD0, CHR 0xB8,
            CHR 0xD1, CHR 0x81]"

definition Marfa :: string where
  "Marfa = [CHR 0xD0, CHR 0x9C, CHR 0xD0, CHR 0xB0, CHR 0xD1, CHR 0x80, CHR 0xD1, CHR 0x84,
            CHR 0xD0, CHR 0xB0]"

definition Taras :: string where
  "Taras = [CHR 0xD0, CHR 0xA2, CHR 0xD0, CHR 0xB0, CHR 0xD1, CHR 0x80, CHR 0xD0, CHR 0xB0,
            CHR 0xD1, CHR 0x81]"

definition Sergey :: string where
  "Sergey = [CHR 0xD0, CHR 0xA1, CHR 0xD0, CHR 0xB5, CHR 0xD1, CHR 0x80, CHR 0xD0, CHR 0xB3,
             CHR 0xD0, CHR 0xB5, CHR 0xD0, CHR 0xB9]"

text \<open>The dictionary \<open>valid_voices\<close>, in the order of the source.\<close>

definition valid_voices :: "(string \<times> string) list" where
  "valid_voices =
     [(Natalya, ''Nec''), (Aleksandra, ''Ost''), (Boris, ''Bys''),
      (Marfa, ''May''), (Taras, ''Tur''), (Sergey, ''Pon'')]"

text \<open>\<open>sep.join(xs)\<close>.\<close>

fun join :: "string \<Rightarrow> string list \<Rightarrow> string" where
  "join sep [] = []"
| "join sep [x] = x"
| "join sep (x # y # ys) = x @ sep @ join sep (y # ys)"

text \<open>
  The message of the \<open>ValueError\<close> is the f-string of the source: a fixed text, the
  voice given, a second fixed text, and the keys of the dictionary joined by a comma
  and a space. The two fixed texts, in UTF-8:
\<close>

definition message_head :: string where
  "message_head =
     [CHR 0xD0, CHR 0x9D, CHR 0xD0, CHR 0xB5, CHR 0xD0, CHR 0xB4, CHR 0xD0, CHR 0xBE,
      CHR 0xD0, CHR 0xBF, CHR 0xD1, CHR 0x83, CHR 0xD1, CHR 0x81, CHR 0xD1, CHR 0x82,
      CHR 0xD0, CHR 0xB8, CHR 0xD0, CHR 0xBC, CHR 0xD0, CHR 0xBE, CHR 0xD0, CHR 0xB5] @ '' '' @
     [CHR 0xD0, CHR 0xB7, CHR 0xD0, CHR 0xBD, CHR 0xD0, CHR 0xB0, CHR 0xD1, CHR 0x87,
      CHR 0xD0, CHR 0xB5, CHR 0xD0, CHR 0xBD, CHR 0xD0, CHR 0xB8, CHR 0xD0, CHR 0xB5] @ '' '' @
     [CHR 0xD0, CHR 0xB4, CHR 0xD0, CHR 0xBB, CHR 0xD1, CHR 0x8F] @ '' '' @
     [CHR 0xD0, CHR 0xBF, CHR 0xD0, CHR 0xB0, CHR 0xD1, CHR 0x80, CHR 0xD0, CHR 0xB0,
      CHR 0xD0, CHR 0xBC, CHR 0xD0, CHR 0xB5, CHR 0xD1, CHR 0x82, CHR 0xD1, CHR 0x80,
      CHR 0xD0, CHR 0xB0] @ '' '' @ [CHR 0x27] @ ''voice'' @ [CHR 0x27] @ '': ''"

definition message_mid :: string where
  "message_mid =
     ''. '' @
     [CHR 0xD0, CHR 0x94, CHR 0xD0, CHR 0xBE, CHR 0xD0, CHR 0xBF, CHR 0xD1, CHR 0x83,
      CHR 0xD1, CHR 0x81, CHR 0xD1, CHR 0x82, CHR 0xD0, CHR 0xB8, CHR 0xD0, CHR 0xBC,
      CHR 0xD1, CHR 0x8B, CHR 0xD0, CHR 0xB5] @ '' '' @
     [CHR 0xD0, CHR 0xB7, CHR 0xD0, CHR 0xBD, CHR 0xD0, CHR 0xB0, CHR 0xD1, CHR 0x87,
      CHR 0xD0, CHR 0xB5, CHR 0xD0, CHR 0xBD, CHR 0xD0, CHR 0xB8, CHR 0xD1, CHR 0x8F] @ '': ''"

definition invalid_voice_message :: "string \<Rightarrow> string" where
  "invalid_voice_message voice =
     message_head @ voice @ message_mid @ join '', '' (map fst valid_voices)"

definition synth_request :: "string \<Rightarrow> string option \<Rightarrow> string \<Rightarrow> http_request" where
  "synth_request code tok text =
     \<lparr>url = ''https://smartspeech.sber.ru/rest/v1/text:synthesize?voice='' @ code @ ''_24000'',
      headers = [(''Authorization'', ''Bearer '' @ py_str tok),
                 (''Content-Type'', ''application/text'')],
      data = Raw text,
      verify = False\<rparr>"

text \<open>
  \<open>speak\<close>: the voice is looked up first and an unknown one raises \<open>ValueError\<close>;
  then the token is fetched, the text is posted, and a reply of status 200 is decoded
  and played; any other status raises \<open>Exception("Failed to synthesize speech")\<close>.
  The playback is blocking and is recorded as one effect; the audio device is taken to
  accept it.
\<close>

definition speak :: "ext \<Rightarrow> string \<Rightarrow> string \<Rightarrow> state \<Rightarrow> (py_error + unit) \<times> state" where
  "speak e text voice s =
     (case map_of valid_voices voice of
        None \<Rightarrow> (Inl (ValueError (invalid_voice_message voice)), s)
      | Some code \<Rightarrow>
          (case get_token e s of
             (Inl err, s1) \<Rightarrow> (Inl err, s1)
           | (Inr tok, s1) \<Rightarrow>
               (let req = synth_request code tok text;
                    s2 = emit (HttpPost req) s1
                in case post e req of
                     Inl err \<Rightarrow> (Inl err, s2)
                   | Inr response \<Rightarrow>
                       if status_code response = 200 then
                         (case decode (content response) of
                            Inl err \<Rightarrow> (Inl err, s2)
                          | Inr (audio, sample_rate) \<Rightarrow>
                              (Inr (), emit (Play audio sample_rate) s2))
                       else (Inl (Exception ''Failed to synthesize speech''), s2))))"

subsection \<open>Calls in sequence\<close>

text \<open>
  A process calls the class methods again and again, each call with the outside world
  as it is then. The state is threaded through; the results are collected in order.
\<close>

fun get_authdata_calls :: "ext list \<Rightarrow> state \<Rightarrow> string option list \<times> state" where
  "get_authdata_calls [] s = ([], s)"
| "get_authdata_calls (e # es) s =
     (case get_authdata e s of
        (r, s1) \<Rightarrow> (case get_authdata_calls es s1 of (rs, s2) \<Rightarrow> (r # rs, s2)))"

fun get_token_calls :: "ext list \<Rightarrow> state \<Rightarrow> (py_error + string option) list \<times> state" where
  "get_token_calls [] s = ([], s)"
| "get_token_calls (e # es) s =
     (case get_token e s of
        (r, s1) \<Rightarrow> (case get_token_calls es s1 of (rs, s2) \<Rightarrow> (r # rs, s2)))"

text \<open>Whether an effect is a playback.\<close>

definition is_play :: "event \<Rightarrow> bool" where
  "is_play ev = (case ev of Play audio sample_rate \<Rightarrow> True | _ \<Rightarrow> False)"

section \<open>Properties\<close>

subsection \<open>Freshness of the cached token\<close>

text \<open>
  C7. A cached token whose expiry is more than 2000 ms after the clock's reading is
  returned as it is, and the state is the one before the call: the attributes are
  untouched and the trace has gained no event, so no request went to the token
  endpoint.
\<close>

theorem get_token_fresh_cached:
  assumes "token s = Some t" and "expires_in s = Some x" and "now_ms e + 2000 < x"
  shows "get_token e s = (Inr (Some t), s)"
  using assms by (simp add: get_token_def needs_refresh_def)

theorem get_token_fresh_cached_witness:
  "token \<lparr>authdata = None, token = Some ''cached'', expires_in = Some 12001, trace = []\<rparr>
     = Some ''cached'' \<and>
   expires_in \<lparr>authdata = None, token = Some ''cached'', expires_in = Some 12001, trace = []\<rparr>
     = Some 12001 \<and>
   now_ms \<lparr>environ_key = None, now_ms = 10000, uuid4 = ''0'',
           post = (always (Inl RequestException))\<rparr> + 2000 < 12001 \<and>
   get_token
     \<lparr>environ_key = None, now_ms = 10000, uuid4 = ''0'', post = (always (Inl RequestException))\<rparr>
     \<lparr>authdata = None, token = Some ''cached'', expires_in = Some 12001, trace = []\<rparr>
   = (Inr (Some ''cached''),
      \<lparr>authdata = None, token = Some ''cached'', expires_in = Some 12001, trace = []\<rparr>)"
  using get_token_fresh_cached
    [of "\<lparr>authdata = None, token = Some ''cached'', expires_in = Some 12001, trace = []\<rparr>"
        "''cached''" 12001
        "\<lparr>environ_key = None, now_ms = 10000, uuid4 = ''0'',
          post = (always (Inl RequestException))\<rparr>"]
  by simp

text \<open>
  C1, at a token that expired one second ago. The clock reads 10000 ms, the cached
  token \<open>old\<close> expired at 9000 ms, and the token endpoint would answer 200 with a new
  token. The docstring of \<open>get_token\<close> says that an expired token is replaced by a new
  one; the condition compares the expiry with the clock minus 2000 ms, so the call
  returns \<open>old\<close> and sends nothing.
\<close>

theorem get_token_expired_not_refreshed:
  "get_token
     \<lparr>environ_key = Some ''key'', now_ms = 10000, uuid4 = ''0'',
      post = (always (Inr \<lparr>status_code = 200, json = Some (''new'', 99999), content = []\<rparr>))\<rparr>
     \<lparr>authdata = Some ''key'', token = Some ''old'', expires_in = Some 9000, trace = []\<rparr>
   = (Inr (Some ''old''),
      \<lparr>authdata = Some ''key'', token = Some ''old'', expires_in = Some 9000, trace = []\<rparr>)"
  by (simp add: get_token_def needs_refresh_def)

text \<open>A token cached with no expiry is returned by a call, whatever the clock reads.\<close>

lemma get_token_no_expiry:
  "token s = Some t \<Longrightarrow> expires_in s = None \<Longrightarrow> get_token e s = (Inr (Some t), s)"
  by (simp add: get_token_def needs_refresh_def)

text \<open>
  C10. When a token is cached and the expiry is \<open>None\<close>, every call of any sequence of
  calls, each at its own clock reading and with its own network, returns the cached
  token; the state after the calls is the state before them, so none of them sent a
  request.
\<close>

theorem get_token_calls_no_expiry:
  assumes "token s = Some t" and "expires_in s = None"
  shows "get_token_calls es s = (replicate (length es) (Inr (Some t)), s)"
  using assms by (induction es) (simp_all add: get_token_no_expiry)

theorem get_token_calls_no_expiry_witness:
  "token \<lparr>authdata = None, token = Some ''cached'', expires_in = None, trace = []\<rparr>
     = Some ''cached'' \<and>
   expires_in \<lparr>authdata = None, token = Some ''cached'', expires_in = None, trace = []\<rparr>
     = None \<and>
   get_token_calls
     [\<lparr>environ_key = None, now_ms = 0, uuid4 = ''0'', post = (always (Inl RequestException))\<rparr>,
      \<lparr>environ_key = None, now_ms = 4102444800000, uuid4 = ''1'',
       post = (always (Inl RequestException))\<rparr>]
     \<lparr>authdata = None, token = Some ''cached'', expires_in = None, trace = []\<rparr>
   = ([Inr (Some ''cached''), Inr (Some ''cached'')],
      \<lparr>authdata = None, token = Some ''cached'', expires_in = None, trace = []\<rparr>)"
  using get_token_calls_no_expiry
    [of "\<lparr>authdata = None, token = Some ''cached'', expires_in = None, trace = []\<rparr>"
        "''cached''"
        "[\<lparr>environ_key = None, now_ms = 0, uuid4 = ''0'',
           post = (always (Inl RequestException))\<rparr>,
          \<lparr>environ_key = None, now_ms = 4102444800000, uuid4 = ''1'',
           post = (always (Inl RequestException))\<rparr>]"]
  by simp

subsection \<open>The credential\<close>

lemma get_authdata_cached: "authdata s = Some v \<Longrightarrow> get_authdata e s = (Some v, s)"
  by (simp add: get_authdata_def)

lemma get_authdata_calls_cached:
  "authdata s = Some v \<Longrightarrow> get_authdata_calls es s = (replicate (length es) (Some v), s)"
  by (induction es) (simp_all add: get_authdata_cached)

text \<open>
  C9, as the code has it. With no credential cached, a call that finds the variable
  set reads it once and stores it, and that call and every later call of the sequence
  return the stored value; the state after all of them has gained the one lookup and
  nothing else. A call that finds the variable absent performs the lookup, returns
  \<open>None\<close> and leaves \<open>_authdata\<close> at \<open>None\<close>, so the next call looks again.
\<close>

theorem get_authdata_reads_until_set:
  "(authdata s = None \<and> environ_key e = Some v \<longrightarrow>
      get_authdata_calls (e # es) s =
        (replicate (Suc (length es)) (Some v), (emit EnvRead s)\<lparr>authdata := Some v\<rparr>)) \<and>
   (authdata s = None \<and> environ_key e = None \<longrightarrow>
      get_authdata e s = (None, emit EnvRead s))"
  by (simp add: get_authdata_calls_cached get_authdata_def emit_def)

theorem get_authdata_reads_until_set_witness:
  "get_authdata_calls
     [\<lparr>environ_key = Some ''key'', now_ms = 0, uuid4 = ''0'',
       post = (always (Inl RequestException))\<rparr>,
      \<lparr>environ_key = Some ''other'', now_ms = 1, uuid4 = ''1'',
       post = (always (Inl RequestException))\<rparr>,
      \<lparr>environ_key = None, now_ms = 2, uuid4 = ''2'',
       post = (always (Inl RequestException))\<rparr>]
     \<lparr>authdata = None, token = None, expires_in = None, trace = []\<rparr>
   = ([Some ''key'', Some ''key'', Some ''key''],
      \<lparr>authdata = Some ''key'', token = None, expires_in = None, trace = [EnvRead]\<rparr>) \<and>
   get_authdata
     \<lparr>environ_key = None, now_ms = 0, uuid4 = ''0'', post = (always (Inl RequestException))\<rparr>
     \<lparr>authdata = None, token = None, expires_in = None, trace = []\<rparr>
   = (None, \<lparr>authdata = None, token = None, expires_in = None, trace = [EnvRead]\<rparr>)"
  using get_authdata_reads_until_set
    [of "\<lparr>authdata = None, token = None, expires_in = None, trace = []\<rparr>"
        "\<lparr>environ_key = Some ''key'', now_ms = 0, uuid4 = ''0'',
          post = (always (Inl RequestException))\<rparr>"
        "''key''"
        "[\<lparr>environ_key = Some ''other'', now_ms = 1, uuid4 = ''1'',
           post = (always (Inl RequestException))\<rparr>,
          \<lparr>environ_key = None, now_ms = 2, uuid4 = ''2'',
           post = (always (Inl RequestException))\<rparr>]"]
    get_authdata_reads_until_set
    [of "\<lparr>authdata = None, token = None, expires_in = None, trace = []\<rparr>"
        "\<lparr>environ_key = None, now_ms = 0, uuid4 = ''0'',
          post = (always (Inl RequestException))\<rparr>"]
  by (simp add: emit_def)

text \<open>
  C9 as stated fails when the variable is absent: two calls in a fresh process look
  the variable up twice.
\<close>

theorem get_authdata_absent_read_twice:
  "get_authdata_calls
     [\<lparr>environ_key = None, now_ms = 0, uuid4 = ''0'', post = (always (Inl RequestException))\<rparr>,
      \<lparr>environ_key = None, now_ms = 1, uuid4 = ''1'', post = (always (Inl RequestException))\<rparr>]
     \<lparr>authdata = None, token = None, expires_in = None, trace = []\<rparr>
   = ([None, None],
      \<lparr>authdata = None, token = None, expires_in = None, trace = [EnvRead, EnvRead]\<rparr>)"
  by (simp add: get_authdata_def emit_def)

subsection \<open>Refreshing the token\<close>




text \<open>
  C5, as the code has it. When a refresh is due and the token endpoint answers with a
  status other than 200, \<open>get_token\<close> raises \<open>Exception\<close> with the fixed message
  \<open>Failed to obtain token\<close>, which does not hold the status; the state after the call
  is the one after the credential lookup plus the request sent, and the cached token and
  expiry are those before the call.
\<close>

theorem get_token_non_200:
  assumes "needs_refresh e s"
    and "post e (oauth_request (fst (get_authdata e s)) (uuid4 e)) = Inr r"
    and "status_code r \<noteq> 200"
  shows "get_token e s =
           (Inl (Exception ''Failed to obtain token''),
            emit (HttpPost (oauth_request (fst (get_authdata e s)) (uuid4 e)))
              (snd (get_authdata e s))) \<and>
         token (snd (get_token e s)) = token s \<and>
         expires_in (snd (get_token e s)) = expires_in s"
  using assms
  by (simp add: get_token_def request_for_new_token_def get_authdata_def emit_def
      split: option.splits prod.splits)

theorem get_token_non_200_witness:
  "needs_refresh
     \<lparr>environ_key = Some ''key'', now_ms = 10000, uuid4 = ''0'',
      post = (always (Inr \<lparr>status_code = 401, json = None, content = []\<rparr>))\<rparr>
     \<lparr>authdata = Some ''key'', token = Some ''old'', expires_in = Some 7000, trace = []\<rparr> \<and>
   get_token
     \<lparr>environ_key = Some ''key'', now_ms = 10000, uuid4 = ''0'',
      post = (always (Inr \<lparr>status_code = 401, json = None, content = []\<rparr>))\<rparr>
     \<lparr>authdata = Some ''key'', token = Some ''old'', expires_in = Some 7000, trace = []\<rparr>
   = (Inl (Exception ''Failed to obtain token''),
      \<lparr>authdata = Some ''key'', token = Some ''old'', expires_in = Some 7000,
       trace = [HttpPost (oauth_request (Some ''key'') ''0'')]\<rparr>)"
  using get_token_non_200
    [of "\<lparr>environ_key = Some ''key'', now_ms = 10000, uuid4 = ''0'',
          post = (always (Inr \<lparr>status_code = 401, json = None, content = []\<rparr>))\<rparr>"
        "\<lparr>authdata = Some ''key'', token = Some ''old'', expires_in = Some 7000, trace = []\<rparr>"
        "\<lparr>status_code = 401, json = None, content = []\<rparr>"]
  by (simp add: needs_refresh_def get_authdata_def emit_def)

text \<open>
  C5 as stated fails: the error raised for status 401 and the one raised for status 500
  are the same value, so the status cannot be read from it.
\<close>

theorem get_token_status_not_carried:
  "fst (get_token
     \<lparr>environ_key = Some ''key'', now_ms = 10000, uuid4 = ''0'',
      post = (always (Inr \<lparr>status_code = 401, json = None, content = []\<rparr>))\<rparr>
     \<lparr>authdata = None, token = None, expires_in = None, trace = []\<rparr>)
     = Inl (Exception ''Failed to obtain token'') \<and>
   fst (get_token
     \<lparr>environ_key = Some ''key'', now_ms = 10000, uuid4 = ''0'',
      post = (always (Inr \<lparr>status_code = 500, json = None, content = []\<rparr>))\<rparr>
     \<lparr>authdata = None, token = None, expires_in = None, trace = []\<rparr>)
     = Inl (Exception ''Failed to obtain token'')"
  by (simp add: get_token_def needs_refresh_def request_for_new_token_def get_authdata_def
      emit_def)

subsection \<open>The voice\<close>

lemmas voice_names = Natalya_def Aleksandra_def Boris_def Marfa_def Taras_def Sergey_def

lemma valid_voices_unknown:
  "voice \<notin> {Natalya, Aleksandra, Boris, Marfa, Taras, Sergey} \<Longrightarrow>
   map_of valid_voices voice = None"
  by (simp add: valid_voices_def)

lemma valid_voices_known:
  "(voice, code) \<in> {(Natalya, ''Nec''), (Aleksandra, ''Ost''), (Boris, ''Bys''),
                     (Marfa, ''May''), (Taras, ''Tur''), (Sergey, ''Pon'')}
   \<Longrightarrow> map_of valid_voices voice = Some code"
  by (auto simp add: valid_voices_def voice_names)

text \<open>
  C3. For a voice that is none of the six names, \<open>speak\<close> raises \<open>ValueError\<close> (the
  spec's \<open>InvalidVoiceError\<close>); the message holds the voice given and then the six
  names, and the state after the call is the state before it: nothing was looked up,
  sent or played.
\<close>

theorem speak_invalid_voice:
  assumes "voice \<notin> {Natalya, Aleksandra, Boris, Marfa, Taras, Sergey}"
  shows "speak e text voice s =
           (Inl (ValueError (message_head @ voice @ message_mid @
                   Natalya @ '', '' @ Aleksandra @ '', '' @ Boris @ '', '' @
                   Marfa @ '', '' @ Taras @ '', '' @ Sergey)), s)"
  using valid_voices_unknown [OF assms]
  by (simp add: speak_def invalid_voice_message_def valid_voices_def)

theorem speak_invalid_voice_witness:
  "''Bob'' \<notin> {Natalya, Aleksandra, Boris, Marfa, Taras, Sergey} \<and>
   speak \<lparr>environ_key = None, now_ms = 0, uuid4 = ''0'', post = (always (Inl RequestException))\<rparr>
     ''hello'' ''Bob'' \<lparr>authdata = None, token = None, expires_in = None, trace = []\<rparr>
   = (Inl (ValueError (message_head @ ''Bob'' @ message_mid @
             Natalya @ '', '' @ Aleksandra @ '', '' @ Boris @ '', '' @
             Marfa @ '', '' @ Taras @ '', '' @ Sergey)),
      \<lparr>authdata = None, token = None, expires_in = None, trace = []\<rparr>)"
  using speak_invalid_voice
    [of "''Bob''"
        "\<lparr>environ_key = None, now_ms = 0, uuid4 = ''0'', post = (always (Inl RequestException))\<rparr>"
        "''hello''" "\<lparr>authdata = None, token = None, expires_in = None, trace = []\<rparr>"]
  by (simp add: voice_names)

text \<open>
  C4. For each of the six names with its documented code, once \<open>get_token\<close> has
  returned a token, the next effect of \<open>speak\<close> is the synthesis request, and its URL
  is the fixed base followed by \<open>voice=\<close>, the code unchanged, and \<open>_24000\<close>.
\<close>

theorem speak_voice_code:
  assumes "(voice, code) \<in> {(Natalya, ''Nec''), (Aleksandra, ''Ost''), (Boris, ''Bys''),
                             (Marfa, ''May''), (Taras, ''Tur''), (Sergey, ''Pon'')}"
    and "get_token e s = (Inr tok, s1)"
  shows "take (Suc (length (trace s1))) (trace (snd (speak e text voice s))) =
           trace s1 @
           [HttpPost
              \<lparr>url = ''https://smartspeech.sber.ru/rest/v1/text:synthesize?voice='' @
                      code @ ''_24000'',
               headers = [(''Authorization'', ''Bearer '' @ py_str tok),
                          (''Content-Type'', ''application/text'')],
               data = Raw text,
               verify = False\<rparr>]"
  using valid_voices_known [OF assms(1)] assms(2)
  by (simp add: speak_def synth_request_def emit_def Let_def split: sum.splits prod.splits)

theorem speak_voice_code_witness:
  "(Boris, ''Bys'') \<in> {(Natalya, ''Nec''), (Aleksandra, ''Ost''), (Boris, ''Bys''),
                        (Marfa, ''May''), (Taras, ''Tur''), (Sergey, ''Pon'')} \<and>
   get_token
     \<lparr>environ_key = Some ''key'', now_ms = 10000, uuid4 = ''0'',
      post = (always (Inr \<lparr>status_code = 500, json = None, content = []\<rparr>))\<rparr>
     \<lparr>authdata = Some ''key'', token = Some ''tok'', expires_in = Some 99999, trace = []\<rparr>
   = (Inr (Some ''tok''),
      \<lparr>authdata = Some ''key'', token = Some ''tok'', expires_in = Some 99999, trace = []\<rparr>) \<and>
   take 1 (trace (snd (speak
     \<lparr>environ_key = Some ''key'', now_ms = 10000, uuid4 = ''0'',
      post = (always (Inr \<lparr>status_code = 500, json = None, content = []\<rparr>))\<rparr>
     ''hello'' Boris
     \<lparr>authdata = Some ''key'', token = Some ''tok'', expires_in = Some 99999, trace = []\<rparr>)))
   = [HttpPost
        \<lparr>url = ''https://smartspeech.sber.ru/rest/v1/text:synthesize?voice=Bys_24000'',
         headers = [(''Authorization'', ''Bearer tok''), (''Content-Type'', ''application/text'')],
         data = Raw ''hello'',
         verify = False\<rparr>]"
  using speak_voice_code
    [of Boris "''Bys''"
        "\<lparr>environ_key = Some ''key'', now_ms = 10000, uuid4 = ''0'',
          post = (always (Inr \<lparr>status_code = 500, json = None, content = []\<rparr>))\<rparr>"
        "\<lparr>authdata = Some ''key'', token = Some ''tok'', expires_in = Some 99999, trace = []\<rparr>"
        "Some ''tok''"
        "\<lparr>authdata = Some ''key'', token = Some ''tok'', expires_in = Some 99999, trace = []\<rparr>"
        "''hello''"]
  by (simp add: get_token_def needs_refresh_def py_str_def)

subsection \<open>The reply of the synthesis endpoint\<close>

lemma get_token_plays_nothing:
  "filter is_play (trace (snd (get_token e s))) = filter is_play (trace s)"
  by (simp add: get_token_def request_for_new_token_def get_authdata_def emit_def is_play_def
      Let_def split: option.splits prod.splits sum.splits)

text \<open>
  C6, as the code has it. For a valid voice and a token obtained, when the synthesis
  endpoint answers with a status other than 200, \<open>speak\<close> raises \<open>Exception\<close> with the
  fixed message \<open>Failed to synthesize speech\<close>, which does not hold the status; the
  request is the last effect, and the playbacks in the trace are those before the call.
\<close>

theorem speak_non_200:
  assumes "map_of valid_voices voice = Some code"
    and "get_token e s = (Inr tok, s1)"
    and "post e (synth_request code tok text) = Inr r"
    and "status_code r \<noteq> 200"
  shows "speak e text voice s =
           (Inl (Exception ''Failed to synthesize speech''),
            emit (HttpPost (synth_request code tok text)) s1) \<and>
         filter is_play (trace (snd (speak e text voice s))) = filter is_play (trace s)"
proof -
  have "filter is_play (trace s1) = filter is_play (trace s)"
    using get_token_plays_nothing [of e s] assms(2) by simp
  with assms show ?thesis
    by (simp add: speak_def emit_def is_play_def Let_def)
qed

theorem speak_non_200_witness:
  "map_of valid_voices Boris = Some ''Bys'' \<and>
   get_token
     \<lparr>environ_key = Some ''key'', now_ms = 10000, uuid4 = ''0'',
      post = (always (Inr \<lparr>status_code = 500, json = None, content = []\<rparr>))\<rparr>
     \<lparr>authdata = Some ''key'', token = Some ''tok'', expires_in = Some 99999, trace = []\<rparr>
   = (Inr (Some ''tok''),
      \<lparr>authdata = Some ''key'', token = Some ''tok'', expires_in = Some 99999, trace = []\<rparr>) \<and>
   speak
     \<lparr>environ_key = Some ''key'', now_ms = 10000, uuid4 = ''0'',
      post = (always (Inr \<lparr>status_code = 500, json = None, content = []\<rparr>))\<rparr>
     ''hello'' Boris
     \<lparr>authdata = Some ''key'', token = Some ''tok'', expires_in = Some 99999, trace = []\<rparr>
   = (Inl (Exception ''Failed to synthesize speech''),
      \<lparr>authdata = Some ''key'', token = Some ''tok'', expires_in = Some 99999,
       trace = [HttpPost (synth_request ''Bys'' (Some ''tok'') ''hello'')]\<rparr>)"
  using speak_non_200
    [of Boris "''Bys''"
        "\<lparr>environ_key = Some ''key'', now_ms = 10000, uuid4 = ''0'',
          post = (always (Inr \<lparr>status_code = 500, json = None, content = []\<rparr>))\<rparr>"
        "\<lparr>authdata = Some ''key'', token = Some ''tok'', expires_in = Some 99999, trace = []\<rparr>"
        "Some ''tok''"
        "\<lparr>authdata = Some ''key'', token = Some ''tok'', expires_in = Some 99999, trace = []\<rparr>"
        "''hello''"
        "\<lparr>status_code = 500, json = None, content = []\<rparr>"]
  by (simp add: get_token_def needs_refresh_def emit_def valid_voices_def voice_names)

text \<open>
  C6 as stated fails: the error raised for status 500 and the one raised for status 404
  are the same value, so the status cannot be read from it.
\<close>

theorem speak_status_not_carried:
  "fst (speak
     \<lparr>environ_key = Some ''key'', now_ms = 10000, uuid4 = ''0'',
      post = (always (Inr \<lparr>status_code = 500, json = None, content = []\<rparr>))\<rparr>
     ''hello'' Boris
     \<lparr>authdata = Some ''key'', token = Some ''tok'', expires_in = Some 99999, trace = []\<rparr>)
     = Inl (Exception ''Failed to synthesize speech'') \<and>
   fst (speak
     \<lparr>environ_key = Some ''key'', now_ms = 10000, uuid4 = ''0'',
      post = (always (Inr \<lparr>status_code = 404, json = None, content = []\<rparr>))\<rparr>
     ''hello'' Boris
     \<lparr>authdata = Some ''key'', token = Some ''tok'', expires_in = Some 99999, trace = []\<rparr>)
     = Inl (Exception ''Failed to synthesize speech'')"
  by (simp add: speak_def get_token_def needs_refresh_def emit_def valid_voices_def voice_names)

subsection \<open>The round trip through the container\<close>

lemma length_nat_le: "length (nat_le n v) = n"
  by (induction n arbitrary: v) simp_all

lemma le_nat_nat_le: "v < 256 ^ n \<Longrightarrow> le_nat (nat_le n v) = v"
proof (induction n arbitrary: v)
  case 0
  then show ?case by simp
next
  case (Suc n)
  then have "v div 256 < 256 ^ n"
    by (simp add: less_mult_imp_div_less mult.commute)
  with Suc.IH have "le_nat (nat_le n (v div 256)) = v div 256" .
  then show ?case by simp
qed

lemma length_frames: "length (concat (map sample_bytes samples)) = 2 * length samples"
  by (induction samples) (simp_all add: sample_bytes_def length_nat_le)

lemma sample_bytes_two: "\<exists>lo hi. sample_bytes w = [lo, hi]"
  by (simp add: sample_bytes_def numeral_2_eq_2)

lemma sample_roundtrip:
  assumes "sample_bytes w = [lo, hi]"
  shows "word_of_nat (le_nat [lo, hi]) = w"
proof -
  have "unat w < 256 ^ 2" using unsigned_less [of w] by simp
  then have "le_nat (nat_le 2 (unat w)) = unat w" by (rule le_nat_nat_le)
  with assms show ?thesis by (simp add: sample_bytes_def)
qed

lemma frombuffer_frames: "frombuffer_int16 (concat (map sample_bytes samples)) = Inr samples"
proof (induction samples)
  case Nil
  then show ?case by simp
next
  case (Cons w ws)
  obtain lo hi where b: "sample_bytes w = [lo, hi]" using sample_bytes_two by blast
  then show ?case using Cons sample_roundtrip [OF b] by simp
qed

lemma read_fmt_canonical:
  assumes "0 < channels" and "channels < 2 ^ 16" and "rate < 2 ^ 32"
  shows "read_fmt_chunk (nat_le 2 1 @ nat_le 2 channels @ nat_le 4 rate @ nat_le 4 avg @
                          nat_le 2 align @ nat_le 2 16)
           = Inr (channels, 2, rate)"
proof -
  have r: "le_nat (nat_le 4 rate) = rate" using assms(3) by (intro le_nat_nat_le) simp
  have c: "le_nat (nat_le 2 channels) = channels" using assms(2) by (intro le_nat_nat_le) simp
  have a: "le_nat (nat_le 2 (Suc 0)) = Suc 0" "le_nat (nat_le 2 16) = 16"
    by (intro le_nat_nat_le; simp)+
  show ?thesis using assms(1)
    by (simp add: read_fmt_chunk_def length_nat_le r c a Let_def)
qed

lemma read_chunks_fmt:
  assumes "length body = 16"
  shows "read_chunks fmt (''fmt '' @ nat_le 4 16 @ body @ rest) =
           (case read_fmt_chunk body of
              Inl err \<Rightarrow> Inl err
            | Inr f \<Rightarrow> read_chunks (Some f) rest)"
proof -
  have a: "le_nat (nat_le 4 16) = 16" by (intro le_nat_nat_le) simp
  show ?thesis
    by (subst read_chunks.simps) (simp add: length_nat_le a assms Let_def split: sum.splits)
qed

lemma read_chunks_data:
  assumes "length body < 2 ^ 32"
  shows "read_chunks (Some (c, w, r)) (''data'' @ nat_le 4 (length body) @ body) =
           Inr \<lparr>nchannels = c, sampwidth = w, framerate = r,
                nframes = length body div (c * w), data_chunk = body\<rparr>"
proof -
  have a: "le_nat (nat_le 4 (length body)) = length body"
    using assms by (intro le_nat_nat_le) simp
  show ?thesis
    by (subst read_chunks.simps) (simp add: length_nat_le a Let_def)
qed

lemma wave_open_riff:
  assumes "length sz = 4" and "le_nat sz = 4 + length chunks"
  shows "wave_open (''RIFF'' @ sz @ ''WAVE'' @ chunks) = read_chunks None chunks"
  using assms by (simp add: wave_open_def Let_def)

lemma wave_open_encode:
  assumes "0 < channels" and "channels < 2 ^ 16" and "rate < 2 ^ 32"
    and "36 + 2 * length samples < 2 ^ 32"
  shows "wave_open (wav_encode channels rate samples) =
           Inr \<lparr>nchannels = channels, sampwidth = 2, framerate = rate,
                nframes = 2 * length samples div (channels * 2),
                data_chunk = concat (map sample_bytes samples)\<rparr>"
proof -
  let ?frames = "concat (map sample_bytes samples)"
  let ?fmt = "nat_le 2 1 @ nat_le 2 channels @ nat_le 4 rate @ nat_le 4 (channels * rate * 2) @
              nat_le 2 (channels * 2) @ nat_le 2 16"
  let ?data = "''data'' @ nat_le 4 (length ?frames) @ ?frames"
  let ?chunks = "''fmt '' @ nat_le 4 16 @ ?fmt @ ?data"
  have n: "length ?frames = 2 * length samples" by (rule length_frames)
  have len: "length ?chunks = 32 + length ?frames"
    by (simp add: length_nat_le)
  have size: "le_nat (nat_le 4 (36 + length ?frames)) = 4 + length ?chunks"
    unfolding len using assms(4) n by (subst le_nat_nat_le) simp_all
  have enc: "wav_encode channels rate samples =
               ''RIFF'' @ nat_le 4 (36 + length ?frames) @ ''WAVE'' @ ?chunks"
    by (simp add: wav_encode_def Let_def)
  have fmt: "length ?fmt = 16" by (simp add: length_nat_le)
  have "wave_open (wav_encode channels rate samples) = read_chunks None ?chunks"
    unfolding enc by (rule wave_open_riff [OF length_nat_le size])
  also have "\<dots> = read_chunks (Some (channels, 2, rate)) ?data"
    unfolding read_chunks_fmt [OF fmt] read_fmt_canonical [OF assms(1-3)] by simp
  also have "\<dots> = Inr \<lparr>nchannels = channels, sampwidth = 2, framerate = rate,
                nframes = length ?frames div (channels * 2), data_chunk = ?frames\<rparr>"
    using assms(4) n by (intro read_chunks_data) simp
  finally show ?thesis using n by simp
qed

lemma decode_encode:
  assumes "0 < channels" and "channels < 2 ^ 16" and "rate < 2 ^ 32"
    and "36 + 2 * length samples < 2 ^ 32" and "channels dvd length samples"
  shows "decode (wav_encode channels rate samples) = Inr (samples, rate)"
proof -
  obtain k where k: "length samples = channels * k" using assms(5) by (auto elim: dvdE)
  have "2 * length samples div (channels * 2) * (channels * 2) = 2 * length samples"
    using assms(1) k by simp
  then show ?thesis
    by (simp add: decode_def wave_open_encode [OF assms(1-4)] getframerate_def getnframes_def
        readframes_def length_frames frombuffer_frames)
qed

text \<open>
  C8. A 16-bit PCM file written from a sample array (any number of channels, the
  samples a whole number of frames, the header fields within their widths) decodes to
  the same samples, word for word, and to the sample rate written; and when the
  synthesis endpoint answers 200 with that file, \<open>speak\<close> ends with one playback, of
  exactly those samples at that rate, right after the request.
\<close>

theorem speak_plays_decoded:
  assumes "0 < channels" and "channels < 2 ^ 16" and "rate < 2 ^ 32"
    and "36 + 2 * length samples < 2 ^ 32" and "channels dvd length samples"
    and "map_of valid_voices voice = Some code"
    and "get_token e s = (Inr tok, s1)"
    and "post e (synth_request code tok text) = Inr r"
    and "status_code r = 200"
    and "content r = wav_encode channels rate samples"
  shows "decode (wav_encode channels rate samples) = Inr (samples, rate) \<and>
         speak e text voice s =
           (Inr (), emit (Play samples rate) (emit (HttpPost (synth_request code tok text)) s1))"
  using decode_encode [OF assms(1-5)] assms(6-10)
  by (simp add: speak_def Let_def)

theorem speak_plays_decoded_witness:
  "map_of valid_voices Boris = Some ''Bys'' \<and>
   get_token
     \<lparr>environ_key = Some ''key'', now_ms = 10000, uuid4 = ''0'',
      post = (always (Inr \<lparr>status_code = 200, json = None,
                           content = wav_encode 1 24000 [1, - 2, 32767]\<rparr>))\<rparr>
     \<lparr>authdata = Some ''key'', token = Some ''tok'', expires_in = Some 99999, trace = []\<rparr>
   = (Inr (Some ''tok''),
      \<lparr>authdata = Some ''key'', token = Some ''tok'', expires_in = Some 99999, trace = []\<rparr>) \<and>
   decode (wav_encode 1 24000 [1, - 2, 32767]) = Inr ([1, - 2, 32767], 24000) \<and>
   speak
     \<lparr>environ_key = Some ''key'', now_ms = 10000, uuid4 = ''0'',
      post = (always (Inr \<lparr>status_code = 200, json = None,
                           content = wav_encode 1 24000 [1, - 2, 32767]\<rparr>))\<rparr>
     ''hello'' Boris
     \<lparr>authdata = Some ''key'', token = Some ''tok'', expires_in = Some 99999, trace = []\<rparr>
   = (Inr (),
      \<lparr>authdata = Some ''key'', token = Some ''tok'', expires_in = Some 99999,
       trace = [HttpPost (synth_request ''Bys'' (Some ''tok'') ''hello''),
                Play [1, - 2, 32767] 24000]\<rparr>)"
  using speak_plays_decoded
    [of 1 24000 "[1, - 2, 32767]" Boris "''Bys''"
        "\<lparr>environ_key = Some ''key'', now_ms = 10000, uuid4 = ''0'',
          post = (always (Inr \<lparr>status_code = 200, json = None,
                               content = wav_encode 1 24000 [1, - 2, 32767]\<rparr>))\<rparr>"
        "\<lparr>authdata = Some ''key'', token = Some ''tok'', expires_in = Some 99999, trace = []\<rparr>"
        "Some ''tok''"
        "\<lparr>authdata = Some ''key'', token = Some ''tok'', expires_in = Some 99999, trace = []\<rparr>"
        "''hello''"
        "\<lparr>status_code = 200, json = None, content = wav_encode 1 24000 [1, - 2, 32767]\<rparr>"]
  by (simp add: get_token_def needs_refresh_def emit_def valid_voices_def voice_names)

end
